theory Spec2Isabelle
  imports Main "HOL-Library.Sublist" "HOL-Library.AList"
begin

section \<open>Shared values of package oidc\<close>

text \<open>
  A Go \<^verbatim>\<open>error\<close> value is observed through the message its \<^verbatim>\<open>Error()\<close> method returns
  (which is also what \<^verbatim>\<open>%v\<close> and \<^verbatim>\<open>%s\<close> print). A nil error is \<open>None\<close> of
  \<open>error option\<close>; a function returning \<^verbatim>\<open>(*Token, error)\<close> is modelled by the sum
  \<open>error + Token option\<close>, with \<open>Inl\<close> for a non-nil error (the callers under study drop
  the token in that case) and a nil \<^verbatim>\<open>*Token\<close> as \<open>None\<close>.
\<close>

datatype error = Error string

text \<open>Modelled from the spec: the struct \<^verbatim>\<open>oidc.Token\<close> is declared outside the given sources.
  The spec's data model gives a credential an opaque access token, an optional refresh
  token, an optional identity token and an optional expiry timestamp; the only field the
  sources read is \<^verbatim>\<open>RefreshToken\<close>. A pointer to a token is identified with the token it
  points to (returned tokens must not be modified).
\<close>

record Token =
  AccessToken :: string
  RefreshToken :: string
  IDToken :: string
  Expiry :: "int option"

text \<open>Modelled from the spec: the struct \<^verbatim>\<open>oidc.Config\<close> is declared outside the given sources;
  the sources read \<^verbatim>\<open>ClientID\<close>, \<^verbatim>\<open>ClientSecret\<close> and \<^verbatim>\<open>Scopes\<close>.
\<close>

record Config =
  Provider :: string
  ClientID :: string
  ClientSecret :: string
  Scopes :: "string list"

text \<open>
  \<^verbatim>\<open>url.Values\<close> is \<^verbatim>\<open>map[string][]string\<close>: an association list read through \<open>map_of\<close>.
  \<^verbatim>\<open>Get\<close> returns the first value stored under the key, or the empty string when there is
  none; \<^verbatim>\<open>Set\<close> replaces whatever is stored under the key by the one value.
\<close>

type_synonym Values = "(string \<times> string list) list"

definition Get :: "Values \<Rightarrow> string \<Rightarrow> string" where
  "Get v key = (case map_of v key of
                  None \<Rightarrow> []
                | Some vs \<Rightarrow> (case vs of [] \<Rightarrow> [] | x # _ \<Rightarrow> x))"

definition Set :: "Values \<Rightarrow> string \<Rightarrow> string \<Rightarrow> Values" where
  "Set v key val = AList.update key [val] v"

text \<open>\<^verbatim>\<open>strings.Join\<close>.\<close>

fun Join :: "string list \<Rightarrow> string \<Rightarrow> string" where
  "Join [] sep = []"
| "Join [x] sep = x"
| "Join (x # y # ys) sep = x @ sep @ Join (y # ys) sep"

text \<open>Modelled from the spec: the constant \<^verbatim>\<open>GrantTypeRefreshToken\<close> is declared outside the
  given sources; the spec gives the form value \<^verbatim>\<open>grant_type=refresh_token\<close>.
\<close>

definition GrantTypeRefreshToken :: string where
  "GrantTypeRefreshToken = ''refresh_token''"

text \<open>
  Every function below returns, next to its result and the updated receiver, the calls it
  made on its collaborators, in program order. The collaborators themselves (the wrapped
  token source, the token's validity check against the verifier, the client's token
  endpoint) are outside the given sources and are parameters; a line handed to the debug
  logger is the call \<open>Debug_Print\<close>.
\<close>

datatype call =
    New_OIDCToken
  | New_Verifier
  | Token_IsValid Token
  | Token_Valid Token
  | Debug_Print string
  | Client_token string string Values

section \<open>ReuseTokenSource\<close>

text \<open>
  The wrapped source \<^verbatim>\<open>s.new\<close> is an interface value: \<open>'s\<close> is the state of the object
  behind it (with whatever it reaches: clock, network), and a \<open>'s TokenSource\<close> gives the
  behaviour of the calls made on it. \<open>src_IsValid tok\<close> is
  \<^verbatim>\<open>tok.IsValid(s.ctx, s.new.Verifier())\<close> of the later revision, \<open>src_Valid tok\<close> is
  \<^verbatim>\<open>tok.Valid(s.ctx, s.new.Verifier())\<close> of \<^verbatim>\<open>token_src.go\<close>.
\<close>

record 's TokenSource =
  src_OIDCToken :: "'s \<Rightarrow> (error + Token option) \<times> 's"
  src_IsValid :: "Token \<Rightarrow> 's \<Rightarrow> error option \<times> 's"
  src_Valid :: "Token \<Rightarrow> 's \<Rightarrow> bool \<times> 's"

text \<open>
  A method either returns or panics; a panic carries no result.
\<close>

datatype 'a outcome = Return 'a | Panic

text \<open>
  A \<^verbatim>\<open>*log.Logger\<close> as \<^verbatim>\<open>log.New(out, prefix, flag)\<close> makes it, and \<open>None\<close> for the nil
  pointer. \<^verbatim>\<open>Printf\<close> and \<^verbatim>\<open>Println\<close> on a logger are recorded as the call \<open>Debug_Print\<close>
  with the formatted line (\<^verbatim>\<open>Println\<close> ends it with a newline); on the nil pointer they
  dereference nil and panic, which is \<open>None\<close> here.
\<close>

datatype Writer = Discard | Writer string

datatype Logger = Logger Writer string nat

definition Printf :: "Logger option \<Rightarrow> string \<Rightarrow> call list option" where
  "Printf l line = (case l of None \<Rightarrow> None | Some lg \<Rightarrow> Some [Debug_Print line])"

definition Println :: "Logger option \<Rightarrow> string \<Rightarrow> call list option" where
  "Println l line = Printf l (line @ [CHR 0x0A])"

text \<open>
  The struct's fields \<^verbatim>\<open>new\<close> and \<^verbatim>\<open>t\<close> are \<open>rts_new\<close> and \<open>rts_t\<close>; these two make
  the struct of \<^verbatim>\<open>token_src.go\<close>, and the later revision adds \<^verbatim>\<open>debugLogger\<close>, which its
  constructors store as given (so that it may be nil). The context is fixed at
  construction and only handed on; the mutex is held for the whole of each method and
  released by the deferred unlock also when the method panics, so that the methods run
  one after the other.
\<close>

record 's ReuseTokenSource_token_src =
  rts_new :: 's
  rts_t :: "Token option"

record 's ReuseTokenSource = "'s ReuseTokenSource_token_src" +
  debugLogger :: "Logger option"

definition NewReuseTokenSource_token_src ::
  "Token option \<Rightarrow> 's \<Rightarrow> 's ReuseTokenSource_token_src" where
  "NewReuseTokenSource_token_src t src = \<lparr>rts_new = src, rts_t = t\<rparr>"

definition NewReuseTokenSource :: "Token option \<Rightarrow> 's \<Rightarrow> 's ReuseTokenSource" where
  "NewReuseTokenSource t src =
     \<lparr>rts_new = src, rts_t = t, debugLogger = Some (Logger Discard [] 0)\<rparr>"

definition NewReuseTokenSourceWithDebugLogger ::
  "Logger option \<Rightarrow> Token option \<Rightarrow> 's \<Rightarrow> 's ReuseTokenSource" where
  "NewReuseTokenSourceWithDebugLogger lg t src =
     \<lparr>rts_new = src, rts_t = t, debugLogger = lg\<rparr>"

text \<open>Lines 78 to 83 of the later revision (52 to 57 of \<^verbatim>\<open>token_src.go\<close>), reached by
  every path that neither returns the cached token nor panics before; \<open>cs\<close> are the
  calls made before.\<close>

definition obtain_from_new ::
  "'s TokenSource \<Rightarrow> call list \<Rightarrow> ('s, 'm) ReuseTokenSource_token_src_scheme
     \<Rightarrow> (error + Token option) \<times> call list \<times> ('s, 'm) ReuseTokenSource_token_src_scheme" where
  "obtain_from_new I cs s =
     (case src_OIDCToken I (rts_new s) of
        (Inl e, n) \<Rightarrow> (Inl e, cs @ [New_OIDCToken], s\<lparr>rts_new := n\<rparr>)
      | (Inr t, n) \<Rightarrow> (Inr t, cs @ [New_OIDCToken], s\<lparr>rts_new := n, rts_t := t\<rparr>))"

definition returned :: "'a \<times> 'b \<Rightarrow> 'a outcome \<times> 'b" where
  "returned x = (Return (fst x), snd x)"

definition ReuseTokenSource_OIDCToken ::
  "'s TokenSource \<Rightarrow> ('s, 'm) ReuseTokenSource_scheme
     \<Rightarrow> (error + Token option) outcome \<times> call list \<times> ('s, 'm) ReuseTokenSource_scheme" where
  "ReuseTokenSource_OIDCToken I s =
     (case rts_t s of
        Some tok \<Rightarrow>
          (case src_IsValid I tok (rts_new s) of
             (None, n) \<Rightarrow>
               (Return (Inr (Some tok)), [New_Verifier, Token_IsValid tok], s\<lparr>rts_new := n\<rparr>)
           | (Some (Error m), n) \<Rightarrow>
               (case Printf (debugLogger s)
                       (''reuseTokenSource: Token not valid. Obtaining new one. Cause: ''
                        @ m @ [CHR 0x0A]) of
                  None \<Rightarrow> (Panic, [New_Verifier, Token_IsValid tok], s\<lparr>rts_new := n\<rparr>)
                | Some ps \<Rightarrow>
                    returned (obtain_from_new I ([New_Verifier, Token_IsValid tok] @ ps)
                                (s\<lparr>rts_new := n\<rparr>))))
      | None \<Rightarrow>
          (case Println (debugLogger s)
                  ''reuseTokenSource: No token to reuse. Obtaining new one'' of
             None \<Rightarrow> (Panic, [], s)
           | Some ps \<Rightarrow> returned (obtain_from_new I ps s)))"

text \<open>The same method in \<^verbatim>\<open>token_src.go\<close>: the validity check yields a boolean and
  nothing is logged.\<close>

definition ReuseTokenSource_OIDCToken_token_src ::
  "'s TokenSource \<Rightarrow> ('s, 'm) ReuseTokenSource_token_src_scheme
     \<Rightarrow> (error + Token option) \<times> call list \<times> ('s, 'm) ReuseTokenSource_token_src_scheme" where
  "ReuseTokenSource_OIDCToken_token_src I s =
     (case rts_t s of
        Some tok \<Rightarrow>
          (case src_Valid I tok (rts_new s) of
             (True, n) \<Rightarrow>
               (Inr (Some tok), [New_Verifier, Token_Valid tok], s\<lparr>rts_new := n\<rparr>)
           | (False, n) \<Rightarrow>
               obtain_from_new I [New_Verifier, Token_Valid tok] (s\<lparr>rts_new := n\<rparr>))
      | None \<Rightarrow> obtain_from_new I [] s)"

definition reset :: "('s, 'm) ReuseTokenSource_scheme \<Rightarrow> ('s, 'm) ReuseTokenSource_scheme" where
  "reset s = s\<lparr>rts_t := None\<rparr>"

section \<open>TokenRefresher\<close>

text \<open>
  \<open>'c\<close> is the state of the client (and of the provider behind it). The method
  \<^verbatim>\<open>client.token(ctx, clientID, clientSecret, v)\<close> is outside the given sources and is the
  parameter \<open>endpoint\<close>; it yields an error or a token, never the nil token with a nil
  error, on which line 143 would dereference nil. The struct of \<^verbatim>\<open>token_src.go\<close> has
  the further field \<^verbatim>\<open>vCfg\<close>, which its \<^verbatim>\<open>OIDCToken\<close> (lines 81 to 105, statement for
  statement lines 124 to 148 of the later revision) does not touch: the method is
  defined on the extensible record and so covers both structs.
\<close>

record 'c TokenRefresher =
  refreshToken :: string
  client :: 'c
  cfg :: Config

record 'c tokenRefresher = "'c TokenRefresher" +
  vCfg :: string  \<comment> \<open>the verification configuration, observed through its client id\<close>

definition NewTokenRefresher :: "'c \<Rightarrow> Config \<Rightarrow> string \<Rightarrow> 'c TokenRefresher" where
  "NewTokenRefresher cl cf rt = \<lparr>refreshToken = rt, client = cl, cfg = cf\<rparr>"

text \<open>The form built by lines 129 to 136.\<close>

definition refresh_form :: "('c, 'm) TokenRefresher_scheme \<Rightarrow> Values" where
  "refresh_form tf =
     (let v = [(''grant_type'', [GrantTypeRefreshToken]),
               (''refresh_token'', [refreshToken tf])]
      in if length (Scopes (cfg tf)) > 0
         then Set v ''scope'' (Join (Scopes (cfg tf)) '' '')
         else v)"

definition TokenRefresher_OIDCToken ::
  "(string \<Rightarrow> string \<Rightarrow> Values \<Rightarrow> 'c \<Rightarrow> (error + Token) \<times> 'c)
     \<Rightarrow> ('c, 'm) TokenRefresher_scheme
     \<Rightarrow> (error + Token option) \<times> call list \<times> ('c, 'm) TokenRefresher_scheme" where
  "TokenRefresher_OIDCToken endpoint tf =
     (if refreshToken tf = []
      then (Inl (Error ''oauth2: token expired and refresh token is not set''), [], tf)
      else
        let v = refresh_form tf;
            cs = [Client_token (ClientID (cfg tf)) (ClientSecret (cfg tf)) v]
        in case endpoint (ClientID (cfg tf)) (ClientSecret (cfg tf)) v (client tf) of
             (Inl e, c) \<Rightarrow> (Inl e, cs, tf\<lparr>client := c\<rparr>)
           | (Inr tk, c) \<Rightarrow>
               (Inr (Some tk), cs,
                if refreshToken tf \<noteq> RefreshToken tk
                then tf\<lparr>client := c, refreshToken := RefreshToken tk\<rparr>
                else tf\<lparr>client := c\<rparr>))"

text \<open>\<open>n\<close> calls of \<^verbatim>\<open>OIDCToken\<close> on the same refresher, one after the other: their results
  in order, all the calls made, and the refresher at the end.\<close>

fun TokenRefresher_OIDCToken_times ::
  "(string \<Rightarrow> string \<Rightarrow> Values \<Rightarrow> 'c \<Rightarrow> (error + Token) \<times> 'c)
     \<Rightarrow> nat \<Rightarrow> ('c, 'm) TokenRefresher_scheme
     \<Rightarrow> (error + Token option) list \<times> call list \<times> ('c, 'm) TokenRefresher_scheme" where
  "TokenRefresher_OIDCToken_times endpoint 0 tf = ([], [], tf)"
| "TokenRefresher_OIDCToken_times endpoint (Suc n) tf =
     (case TokenRefresher_OIDCToken endpoint tf of
        (r, cs, tf') \<Rightarrow>
          (case TokenRefresher_OIDCToken_times endpoint n tf' of
             (rs, cs', tf'') \<Rightarrow> (r # rs, cs @ cs', tf'')))"

text \<open>StaticTokenSource: the same token on every call, no verifier.\<close>

definition staticTokenSource_OIDCToken :: "Token option \<Rightarrow> error + Token option" where
  "staticTokenSource_OIDCToken t = Inr t"

section \<open>Package login: the callback handler\<close>

definition codeParam :: string where "codeParam = ''code''"
definition stateParam :: string where "stateParam = ''state''"
definition errParam :: string where "errParam = ''error''"
definition errDescParam :: string where "errDescParam = ''error_description''"

record callbackMsg =
  token :: "Token option"
  err :: "error option"

definition parseCallbackRequest :: "Values \<Rightarrow> error + string \<times> string" where
  "parseCallbackRequest form =
     (let state = Get form stateParam in
      if state = [] then Inl (Error ''User session error. No state parameter.'')
      else
        let errorCode = Get form errParam in
        if errorCode \<noteq> []
        then Inl (Error (''Got error from provider: '' @ errorCode @ '' Desc: ''
                         @ Get form errDescParam))
        else
          let code = Get form codeParam in
          if code = [] then Inl (Error ''Missing code token.'')
          else Inr (code, state))"

text \<open>
  \<^verbatim>\<open>http.ResponseWriter\<close>: the status line once it is written, and the body bytes written
  so far. \<^verbatim>\<open>WriteHeader\<close> after the status line is out changes nothing; \<^verbatim>\<open>Write\<close> sends
  status 200 first when no status has been written.
\<close>

record ResponseWriter =
  resp_status :: "nat option"
  resp_body :: string

definition StatusOK :: nat where "StatusOK = 200"

definition WriteHeader :: "nat \<Rightarrow> ResponseWriter \<Rightarrow> ResponseWriter" where
  "WriteHeader c w = (if resp_status w = None then w\<lparr>resp_status := Some c\<rparr> else w)"

definition Write :: "string \<Rightarrow> ResponseWriter \<Rightarrow> ResponseWriter" where
  "Write bs w = (let w' = WriteHeader StatusOK w in w'\<lparr>resp_body := resp_body w' @ bs\<rparr>)"

text \<open>
  A context is observed through the value it holds under \<^verbatim>\<open>oidc.HTTPClientCtxKey\<close> (the
  name of an HTTP client; nil is \<open>None\<close>). Of a request the handler uses its context, the
  error \<^verbatim>\<open>r.ParseForm()\<close> returns and the values \<^verbatim>\<open>r.Form\<close> holds afterwards.
\<close>

type_synonym ctxt = "string option"

record Request =
  Context :: ctxt
  ParseForm :: "error option"
  Form :: Values

text \<open>The initial values of the two package variables; the handler is modelled while
  they hold these values.\<close>

definition OKCallbackResponse :: "ResponseWriter \<Rightarrow> Request \<Rightarrow> ResponseWriter" where
  "OKCallbackResponse w r =
     Write ''OIDC authentication flow is completed. You can close browser tab.''
       (WriteHeader StatusOK w)"

definition ErrCallbackResponse :: "ResponseWriter \<Rightarrow> Request \<Rightarrow> error \<Rightarrow> ResponseWriter" where
  "ErrCallbackResponse w r e =
     Write ''OIDC authentication flow is completed. You can close browser tab.''
       (WriteHeader StatusOK w)"

text \<open>
  What the handler does besides writing the response: a call of
  \<^verbatim>\<open>oidcClient.Exchange(ctx, oidcConfig, code)\<close> and a send on \<^verbatim>\<open>callbackChan\<close>, in program
  order. The channel is made and read by the orchestrator, which is outside the given
  sources: a \<open>Chan_send\<close> is the send statement being reached, whether the message is
  then taken at once, buffered, or the handler waits.
\<close>

datatype effect =
    Exchange_call ctxt Config string
  | Chan_send callbackMsg

definition errRespond ::
  "ResponseWriter \<Rightarrow> Request \<Rightarrow> error \<Rightarrow> ResponseWriter \<times> effect list" where
  "errRespond w r e =
     (let callbackResponse = \<lparr>token = None, err = Some e\<rparr> in
      (ErrCallbackResponse w r e, [Chan_send callbackResponse]))"

definition mergeContexts :: "ctxt \<Rightarrow> ctxt \<Rightarrow> ctxt" where
  "mergeContexts originalCtx oidcCtx =
     (case originalCtx of Some customClient \<Rightarrow> originalCtx | None \<Rightarrow> oidcCtx)"

text \<open>
  \<open>'c\<close> is the state of \<^verbatim>\<open>oidcClient\<close> (and of the provider behind it); its method
  \<^verbatim>\<open>Exchange\<close> is outside the given sources and is the parameter \<open>exchange\<close>. The handler
  returns the response writer, its effects and the client.
\<close>

definition callbackHandler ::
  "(ctxt \<Rightarrow> Config \<Rightarrow> string \<Rightarrow> 'c \<Rightarrow> (error + Token option) \<times> 'c)
     \<Rightarrow> ctxt \<Rightarrow> Config \<Rightarrow> string
     \<Rightarrow> ResponseWriter \<Rightarrow> Request \<Rightarrow> 'c \<Rightarrow> ResponseWriter \<times> effect list \<times> 'c" where
  "callbackHandler exchange oidcCtx oidcConfig expectedState w r c =
     (let ctx = mergeContexts (Context r) oidcCtx in
      case ParseForm r of
        Some (Error m) \<Rightarrow>
          (case errRespond w r (Error (''Failed to parse request form. Err: '' @ m)) of
             (w', es) \<Rightarrow> (w', es, c))
      | None \<Rightarrow>
          (case parseCallbackRequest (Form r) of
             Inl e \<Rightarrow> (case errRespond w r e of (w', es) \<Rightarrow> (w', es, c))
           | Inr (code, state) \<Rightarrow>
               if state \<noteq> expectedState
               then (case errRespond w r
                            (Error (''Invalid state parameter. Got '' @ state
                                    @ '', expected: '' @ expectedState)) of
                       (w', es) \<Rightarrow> (w', es, c))
               else
                 (case exchange ctx oidcConfig code c of
                    (Inl e, c') \<Rightarrow>
                      (case errRespond w r e of
                         (w', es) \<Rightarrow> (w', Exchange_call ctx oidcConfig code # es, c'))
                  | (Inr oidcToken, c') \<Rightarrow>
                      (let callbackResponse = \<lparr>token = oidcToken, err = None\<rparr> in
                       (OKCallbackResponse w r,
                        [Exchange_call ctx oidcConfig code, Chan_send callbackResponse],
                        c')))))"

text \<open>The messages sent and the codes exchanged, read off a list of effects.\<close>

fun sent :: "effect list \<Rightarrow> callbackMsg list" where
  "sent [] = []"
| "sent (Chan_send m # es) = m # sent es"
| "sent (Exchange_call x g k # es) = sent es"

fun exchanged :: "effect list \<Rightarrow> string list" where
  "exchanged [] = []"
| "exchanged (Chan_send m # es) = exchanged es"
| "exchanged (Exchange_call x g k # es) = k # exchanged es"

text \<open>
  Successive invocations of one handler value (one expected state and one channel, that
  is one login attempt), each request with a response writer of its own: the responses in
  order, all the effects in the order they happen, and the client at the end.
\<close>

definition newResponseWriter :: ResponseWriter where
  "newResponseWriter = \<lparr>resp_status = None, resp_body = []\<rparr>"

fun serve ::
  "(ctxt \<Rightarrow> Config \<Rightarrow> string \<Rightarrow> 'c \<Rightarrow> (error + Token option) \<times> 'c)
     \<Rightarrow> ctxt \<Rightarrow> Config \<Rightarrow> string
     \<Rightarrow> Request list \<Rightarrow> 'c \<Rightarrow> ResponseWriter list \<times> effect list \<times> 'c" where
  "serve exchange oidcCtx oidcConfig expectedState [] c = ([], [], c)"
| "serve exchange oidcCtx oidcConfig expectedState (r # rs) c =
     (case callbackHandler exchange oidcCtx oidcConfig expectedState newResponseWriter r c of
        (w, es, c') \<Rightarrow>
          (case serve exchange oidcCtx oidcConfig expectedState rs c' of
             (ws, es', c'') \<Rightarrow> (w # ws, es @ es', c'')))"

text \<open>Concrete collaborators and inputs for the examples.\<close>

definition token0 :: Token where
  "token0 = \<lparr>AccessToken = ''at0'', RefreshToken = ''rt0'', IDToken = ''id0'', Expiry = None\<rparr>"

definition token1 :: Token where
  "token1 = \<lparr>AccessToken = ''at1'', RefreshToken = ''rt1'', IDToken = ''id1'', Expiry = None\<rparr>"

definition token_norefresh :: Token where
  "token_norefresh = \<lparr>AccessToken = ''at2'', RefreshToken = [], IDToken = ''id2'', Expiry = None\<rparr>"

definition config0 :: Config where
  "config0 = \<lparr>Provider = ''https://issuer.example'', ClientID = ''cli'',
              ClientSecret = ''secret'', Scopes = [''openid'', ''email'']\<rparr>"

definition exchange_ok :: "ctxt \<Rightarrow> Config \<Rightarrow> string \<Rightarrow> unit \<Rightarrow> (error + Token option) \<times> unit" where
  "exchange_ok x g k u = (Inr (Some token0), ())"

definition request_valid :: Request where
  "request_valid = \<lparr>Context = None, ParseForm = None,
                     Form = [(''code'', [''c0'']), (''state'', [''A''])]\<rparr>"

definition request_valid_again :: Request where
  "request_valid_again = \<lparr>Context = Some ''custom'', ParseForm = None,
                           Form = [(''state'', [''A'']), (''code'', [''c1''])]\<rparr>"

definition request_mismatch :: Request where
  "request_mismatch = \<lparr>Context = None, ParseForm = None,
                        Form = [(''code'', [''c0'']), (''state'', [''B''])]\<rparr>"

definition request_denied :: Request where
  "request_denied = \<lparr>Context = None, ParseForm = None,
                      Form = [(''error'', [''access_denied'']),
                              (''error_description'', [''user cancelled'']),
                              (''state'', [''A''])]\<rparr>"

definition request_denied_nostate :: Request where
  "request_denied_nostate = \<lparr>Context = None, ParseForm = None,
                              Form = [(''error'', [''access_denied'']),
                                      (''error_description'', [''user cancelled''])]\<rparr>"

definition source_fails :: "unit TokenSource" where
  "source_fails = \<lparr>src_OIDCToken = (\<lambda>u. (Inl (Error ''refresh rejected''), ())),
                   src_IsValid = (\<lambda>t u. (Some (Error ''token expired''), ())),
                   src_Valid = (\<lambda>t u. (False, ()))\<rparr>"

definition source_valid :: "unit TokenSource" where
  "source_valid = \<lparr>src_OIDCToken = (\<lambda>u. (Inr (Some token1), ())),
                   src_IsValid = (\<lambda>t u. (None, ())),
                   src_Valid = (\<lambda>t u. (True, ()))\<rparr>"

definition endpoint_rotates :: "string \<Rightarrow> string \<Rightarrow> Values \<Rightarrow> unit \<Rightarrow> (error + Token) \<times> unit" where
  "endpoint_rotates i s v u = (Inr token1, ())"

definition endpoint_norefresh :: "string \<Rightarrow> string \<Rightarrow> Values \<Rightarrow> unit \<Rightarrow> (error + Token) \<times> unit" where
  "endpoint_norefresh i s v u = (Inr token_norefresh, ())"

section \<open>Lemmas on the token sources\<close>

lemma refresh_form_refresh_token:
  "map_of (refresh_form tf) ''refresh_token'' = Some [refreshToken tf]"
  by (simp add: refresh_form_def Set_def Let_def update_conv')

lemma Get_refresh_form:
  "Get (refresh_form tf) ''refresh_token'' = refreshToken tf"
  by (simp add: Get_def refresh_form_refresh_token)

lemma TokenRefresher_OIDCToken_empty:
  "refreshToken tf = [] \<Longrightarrow>
   TokenRefresher_OIDCToken endpoint tf =
     (Inl (Error ''oauth2: token expired and refresh token is not set''), [], tf)"
  by (simp add: TokenRefresher_OIDCToken_def)

lemma TokenRefresher_OIDCToken_success:
  assumes "refreshToken tf \<noteq> []"
      and "endpoint (ClientID (cfg tf)) (ClientSecret (cfg tf)) (refresh_form tf) (client tf)
             = (Inr tk, c)"
  shows "TokenRefresher_OIDCToken endpoint tf =
           (Inr (Some tk),
            [Client_token (ClientID (cfg tf)) (ClientSecret (cfg tf)) (refresh_form tf)],
            if refreshToken tf \<noteq> RefreshToken tk
            then tf\<lparr>client := c, refreshToken := RefreshToken tk\<rparr>
            else tf\<lparr>client := c\<rparr>)"
  using assms by (simp add: TokenRefresher_OIDCToken_def Let_def)

lemma TokenRefresher_OIDCToken_calls:
  "fst (snd (TokenRefresher_OIDCToken endpoint tf)) =
     (if refreshToken tf = [] then []
      else [Client_token (ClientID (cfg tf)) (ClientSecret (cfg tf)) (refresh_form tf)])"
  by (simp add: TokenRefresher_OIDCToken_def Let_def split: prod.splits sum.splits)

lemma TokenRefresher_OIDCToken_times_empty:
  "refreshToken tf = [] \<Longrightarrow>
   TokenRefresher_OIDCToken_times endpoint n tf =
     (replicate n (Inl (Error ''oauth2: token expired and refresh token is not set'')), [], tf)"
  by (induction n) (simp_all add: TokenRefresher_OIDCToken_empty)

lemma ReuseTokenSource_OIDCToken_hit:
  assumes "rts_t s = Some tok" and "src_IsValid I tok (rts_new s) = (None, n)"
  shows "ReuseTokenSource_OIDCToken I s =
           (Return (Inr (Some tok)), [New_Verifier, Token_IsValid tok], s\<lparr>rts_new := n\<rparr>)"
  using assms by (simp add: ReuseTokenSource_OIDCToken_def)

lemma ReuseTokenSource_OIDCToken_token_src_hit:
  assumes "rts_t s = Some tok" and "src_Valid I tok (rts_new s) = (True, n)"
  shows "ReuseTokenSource_OIDCToken_token_src I s =
           (Inr (Some tok), [New_Verifier, Token_Valid tok], s\<lparr>rts_new := n\<rparr>)"
  using assms by (simp add: ReuseTokenSource_OIDCToken_token_src_def)

lemma obtain_from_new_error:
  assumes "src_OIDCToken I (rts_new s) = (Inl e, n)"
  shows "obtain_from_new I cs s = (Inl e, cs @ [New_OIDCToken], s\<lparr>rts_new := n\<rparr>)"
  using assms by (simp add: obtain_from_new_def)

lemma obtain_from_new_calls:
  "fst (snd (obtain_from_new I cs s)) = cs @ [New_OIDCToken]"
  by (simp add: obtain_from_new_def split: prod.splits sum.splits)

lemma obtain_from_new_result:
  "fst (obtain_from_new I cs s) = fst (src_OIDCToken I (rts_new s))"
  by (simp add: obtain_from_new_def split: prod.splits sum.splits)

text \<open>The paths of \<^verbatim>\<open>ReuseTokenSource.OIDCToken\<close> that do not return the cached token:
  with a logger they go on to the wrapped source, on the nil logger they panic at the
  log statement, before the wrapped source is called.\<close>

lemma ReuseTokenSource_OIDCToken_absent:
  assumes "rts_t s = None" and "debugLogger s = Some lg"
  shows "ReuseTokenSource_OIDCToken I s =
           returned (obtain_from_new I
             [Debug_Print (''reuseTokenSource: No token to reuse. Obtaining new one''
                           @ [CHR 0x0A])] s)"
  using assms by (simp add: ReuseTokenSource_OIDCToken_def Println_def Printf_def)

lemma ReuseTokenSource_OIDCToken_invalid:
  assumes "rts_t s = Some tok" and "src_IsValid I tok (rts_new s) = (Some (Error m), n)"
      and "debugLogger s = Some lg"
  shows "ReuseTokenSource_OIDCToken I s =
           returned (obtain_from_new I
             [New_Verifier, Token_IsValid tok,
              Debug_Print (''reuseTokenSource: Token not valid. Obtaining new one. Cause: ''
                           @ m @ [CHR 0x0A])]
             (s\<lparr>rts_new := n\<rparr>))"
  using assms by (simp add: ReuseTokenSource_OIDCToken_def Printf_def)

lemma ReuseTokenSource_OIDCToken_absent_nil_logger:
  assumes "rts_t s = None" and "debugLogger s = None"
  shows "ReuseTokenSource_OIDCToken I s = (Panic, [], s)"
  using assms by (simp add: ReuseTokenSource_OIDCToken_def Println_def Printf_def)

lemma ReuseTokenSource_OIDCToken_invalid_nil_logger:
  assumes "rts_t s = Some tok" and "src_IsValid I tok (rts_new s) = (Some e, n)"
      and "debugLogger s = None"
  shows "ReuseTokenSource_OIDCToken I s =
           (Panic, [New_Verifier, Token_IsValid tok], s\<lparr>rts_new := n\<rparr>)"
  using assms by (cases e) (simp add: ReuseTokenSource_OIDCToken_def Printf_def)

lemma returned_obtain_from_new_error:
  assumes "src_OIDCToken I (rts_new s) = (Inl e, n)"
  shows "returned (obtain_from_new I cs s) =
           (Return (Inl e), cs @ [New_OIDCToken], s\<lparr>rts_new := n\<rparr>)"
  using assms by (simp add: returned_def obtain_from_new_error)

text \<open>After \<^verbatim>\<open>reset\<close>, on a source that has a logger.\<close>

lemma reset_forces_refresh_with_logger:
  assumes "debugLogger s = Some lg"
  shows "fst (snd (ReuseTokenSource_OIDCToken I (reset s))) =
           [Debug_Print (''reuseTokenSource: No token to reuse. Obtaining new one''
                         @ [CHR 0x0A]),
            New_OIDCToken]
       \<and> fst (ReuseTokenSource_OIDCToken I (reset s))
           = Return (fst (src_OIDCToken I (rts_new s)))"
proof -
  have "rts_t (reset s) = None" and "debugLogger (reset s) = Some lg"
    using assms by (simp_all add: reset_def)
  then have "ReuseTokenSource_OIDCToken I (reset s) =
               returned (obtain_from_new I
                 [Debug_Print (''reuseTokenSource: No token to reuse. Obtaining new one''
                               @ [CHR 0x0A])] (reset s))"
    by (rule ReuseTokenSource_OIDCToken_absent)
  then show ?thesis
    by (simp add: returned_def obtain_from_new_calls obtain_from_new_result reset_def)
qed

section \<open>Lemmas on the callback handler\<close>

lemma errRespond_writer:
  "fst (errRespond newResponseWriter r e) =
     \<lparr>resp_status = Some 200,
      resp_body = ''OIDC authentication flow is completed. You can close browser tab.''\<rparr>"
  by (simp add: errRespond_def ErrCallbackResponse_def Write_def WriteHeader_def StatusOK_def
        newResponseWriter_def)

lemma OKCallbackResponse_writer:
  "OKCallbackResponse newResponseWriter r =
     \<lparr>resp_status = Some 200,
      resp_body = ''OIDC authentication flow is completed. You can close browser tab.''\<rparr>"
  by (simp add: OKCallbackResponse_def Write_def WriteHeader_def StatusOK_def
        newResponseWriter_def)

lemma callbackHandler_writer:
  "fst (callbackHandler X octx ocfg st newResponseWriter r c) =
     \<lparr>resp_status = Some 200,
      resp_body = ''OIDC authentication flow is completed. You can close browser tab.''\<rparr>"
proof -
  have e: "\<And>e w' es. errRespond newResponseWriter r e = (w', es) \<Longrightarrow>
             w' = \<lparr>resp_status = Some 200,
                   resp_body = ''OIDC authentication flow is completed. You can close browser tab.''\<rparr>"
    using errRespond_writer by (metis fst_conv)
  show ?thesis
    by (auto simp: callbackHandler_def Let_def OKCallbackResponse_writer dest: e
          split: option.splits error.splits sum.splits prod.splits)
qed

text \<open>The effects of one invocation, by the branch taken.\<close>

lemma callbackHandler_form_error:
  "ParseForm r = Some (Error m) \<Longrightarrow>
   snd (callbackHandler X octx ocfg st w r c) =
     ([Chan_send \<lparr>token = None,
                  err = Some (Error (''Failed to parse request form. Err: '' @ m))\<rparr>], c)"
  by (simp add: callbackHandler_def errRespond_def split: prod.splits)

lemma callbackHandler_parse_error:
  "ParseForm r = None \<Longrightarrow> parseCallbackRequest (Form r) = Inl e \<Longrightarrow>
   snd (callbackHandler X octx ocfg st w r c) = ([Chan_send \<lparr>token = None, err = Some e\<rparr>], c)"
  by (simp add: callbackHandler_def errRespond_def split: prod.splits)

lemma callbackHandler_mismatch:
  "ParseForm r = None \<Longrightarrow> parseCallbackRequest (Form r) = Inr (code, state) \<Longrightarrow> state \<noteq> st \<Longrightarrow>
   snd (callbackHandler X octx ocfg st w r c) =
     ([Chan_send \<lparr>token = None,
                  err = Some (Error (''Invalid state parameter. Got '' @ state
                                     @ '', expected: '' @ st))\<rparr>], c)"
  by (simp add: callbackHandler_def errRespond_def split: prod.splits)

lemma callbackHandler_valid:
  assumes "ParseForm r = None" and "parseCallbackRequest (Form r) = Inr (code, st)"
  shows "fst (snd (callbackHandler X octx ocfg st w r c)) =
           [Exchange_call (mergeContexts (Context r) octx) ocfg code,
            Chan_send (case fst (X (mergeContexts (Context r) octx) ocfg code c) of
                         Inl e \<Rightarrow> \<lparr>token = None, err = Some e\<rparr>
                       | Inr t \<Rightarrow> \<lparr>token = t, err = None\<rparr>)]"
  using assms
  by (simp add: callbackHandler_def errRespond_def Let_def split: prod.splits sum.splits)

lemma callbackHandler_valid_exchanged:
  assumes "ParseForm r = None" and "parseCallbackRequest (Form r) = Inr (code, st)"
  shows "exchanged (fst (snd (callbackHandler X octx ocfg st w r c))) = [code]"
  by (simp add: callbackHandler_valid [OF assms])

lemma callbackHandler_valid_sent:
  assumes "ParseForm r = None" and "parseCallbackRequest (Form r) = Inr (code, st)"
  shows "length (sent (fst (snd (callbackHandler X octx ocfg st w r c)))) = 1"
  by (simp add: callbackHandler_valid [OF assms])

lemma callbackHandler_shape:
  "\<exists>pre m. fst (snd (callbackHandler X octx ocfg st w r c)) = pre @ [Chan_send m]
           \<and> sent pre = [] \<and> length (exchanged pre) \<le> 1"
  by (auto simp: callbackHandler_def errRespond_def Let_def
        split: option.splits error.splits sum.splits prod.splits)

lemma sent_append: "sent (es @ es') = sent es @ sent es'"
  by (induction es rule: sent.induct) simp_all

lemma callbackHandler_one_send:
  "length (sent (fst (snd (callbackHandler X octx ocfg st w r c)))) = 1"
  using callbackHandler_shape [of X octx ocfg st w r c] by (auto simp: sent_append)

lemma serve_sends:
  "length (sent (fst (snd (serve X octx ocfg st rs c)))) = length rs"
proof (induction rs arbitrary: c)
  case Nil
  show ?case by simp
next
  case (Cons r rs)
  obtain w es c' where h: "callbackHandler X octx ocfg st newResponseWriter r c = (w, es, c')"
    by (cases "callbackHandler X octx ocfg st newResponseWriter r c") auto
  obtain ws es' c'' where s: "serve X octx ocfg st rs c' = (ws, es', c'')"
    by (cases "serve X octx ocfg st rs c'") auto
  have "length (sent es) = 1"
    using callbackHandler_one_send [of X octx ocfg st newResponseWriter r c] h by simp
  moreover have "length (sent es') = length rs"
    using Cons.IH [of c'] s by simp
  ultimately show ?case using h s by (simp add: sent_append)
qed

lemma exchanged_append: "exchanged (es @ es') = exchanged es @ exchanged es'"
  by (induction es rule: exchanged.induct) simp_all

lemma serve_two_valid:
  assumes "ParseForm r = None" and "parseCallbackRequest (Form r) = Inr (code, st)"
      and "ParseForm r' = None" and "parseCallbackRequest (Form r') = Inr (code', st)"
  shows "exchanged (fst (snd (serve X octx ocfg st [r, r'] c))) = [code, code']"
proof -
  obtain w1 es1 c1 where h1: "callbackHandler X octx ocfg st newResponseWriter r c = (w1, es1, c1)"
    by (cases "callbackHandler X octx ocfg st newResponseWriter r c") auto
  obtain w2 es2 c2 where h2: "callbackHandler X octx ocfg st newResponseWriter r' c1 = (w2, es2, c2)"
    by (cases "callbackHandler X octx ocfg st newResponseWriter r' c1") auto
  have e1: "exchanged es1 = [code]"
    using callbackHandler_valid_exchanged [OF assms(1,2), of X octx ocfg newResponseWriter c] h1
    by simp
  have e2: "exchanged es2 = [code']"
    using callbackHandler_valid_exchanged [OF assms(3,4), of X octx ocfg newResponseWriter c1] h2
    by simp
  show ?thesis using h1 h2 e1 e2 by (simp add: exchanged_append)
qed

section \<open>The callback handler: claims C1, C2, C3 and C10\<close>

text \<open>
  Claim C1, as the code has it. One invocation of the callback handler reaches exactly
  one send on the outcome channel, as the last thing it does, after at most one call of
  the Token Exchange Client. The handler holds no record of earlier invocations: \<open>n\<close>
  invocations for the same login attempt reach \<open>n\<close> sends, every valid callback request
  (its form parses to a code and the expected state) has its code exchanged, whatever
  was handled before, and so a second valid request after a first calls the Token
  Exchange Client again.
\<close>

theorem callbackHandler_one_send_per_invocation:
  "(\<exists>pre m. fst (snd (callbackHandler X octx ocfg st w r c)) = pre @ [Chan_send m]
           \<and> sent pre = [] \<and> length (exchanged pre) \<le> 1)
   \<and> length (sent (fst (snd (serve X octx ocfg st rs c)))) = length rs
   \<and> (ParseForm r = None \<longrightarrow> parseCallbackRequest (Form r) = Inr (code, st) \<longrightarrow>
        exchanged (fst (snd (callbackHandler X octx ocfg st w r c))) = [code])
   \<and> (ParseForm r = None \<longrightarrow> parseCallbackRequest (Form r) = Inr (code, st) \<longrightarrow>
      ParseForm r' = None \<longrightarrow> parseCallbackRequest (Form r') = Inr (code', st) \<longrightarrow>
        exchanged (fst (snd (serve X octx ocfg st [r, r'] c))) = [code, code']
        \<and> length (sent (fst (snd (serve X octx ocfg st [r, r'] c)))) = 2)"
proof (intro conjI impI)
  show "\<exists>pre m. fst (snd (callbackHandler X octx ocfg st w r c)) = pre @ [Chan_send m]
           \<and> sent pre = [] \<and> length (exchanged pre) \<le> 1"
    by (rule callbackHandler_shape)
next
  show "length (sent (fst (snd (serve X octx ocfg st rs c)))) = length rs"
    by (rule serve_sends)
next
  assume "ParseForm r = None" "parseCallbackRequest (Form r) = Inr (code, st)"
  then show "exchanged (fst (snd (callbackHandler X octx ocfg st w r c))) = [code]"
    by (rule callbackHandler_valid_exchanged)
next
  assume "ParseForm r = None" "parseCallbackRequest (Form r) = Inr (code, st)"
    "ParseForm r' = None" "parseCallbackRequest (Form r') = Inr (code', st)"
  then show "exchanged (fst (snd (serve X octx ocfg st [r, r'] c))) = [code, code']"
    by (rule serve_two_valid)
next
  show "length (sent (fst (snd (serve X octx ocfg st [r, r'] c)))) = 2"
    using serve_sends [of X octx ocfg st "[r, r']" c] by simp
qed

theorem callbackHandler_one_send_per_invocation_witness:
  "ParseForm request_valid = None
   \<and> parseCallbackRequest (Form request_valid) = Inr (''c0'', ''A'')
   \<and> ParseForm request_valid_again = None
   \<and> parseCallbackRequest (Form request_valid_again) = Inr (''c1'', ''A'')
   \<and> exchanged (fst (snd (callbackHandler exchange_ok None config0 ''A'' newResponseWriter
                             request_valid ()))) = [''c0'']
   \<and> exchanged (fst (snd (serve exchange_ok None config0 ''A''
                             [request_valid, request_valid_again] ()))) = [''c0'', ''c1'']
   \<and> length (sent (fst (snd (serve exchange_ok None config0 ''A''
                                 [request_valid, request_valid_again] ())))) = 2"
proof -
  have h1: "ParseForm request_valid = None" by (simp add: request_valid_def)
  have h2: "parseCallbackRequest (Form request_valid) = Inr (''c0'', ''A'')"
    by (simp add: request_valid_def parseCallbackRequest_def Get_def stateParam_def
          errParam_def codeParam_def)
  have h3: "ParseForm request_valid_again = None" by (simp add: request_valid_again_def)
  have h4: "parseCallbackRequest (Form request_valid_again) = Inr (''c1'', ''A'')"
    by (simp add: request_valid_again_def parseCallbackRequest_def Get_def stateParam_def
          errParam_def codeParam_def)
  show ?thesis
    using h1 h2 h3 h4
      callbackHandler_one_send_per_invocation
        [where X = exchange_ok and octx = None and ocfg = config0 and st = "''A''"
           and w = newResponseWriter and r = request_valid and c = "()"
           and code = "''c0''" and r' = request_valid_again and code' = "''c1''"]
    by simp
qed

text \<open>
  Claim C1 as stated fails: a second valid callback request for the same attempt, handled
  after the first has sent its outcome, calls the Token Exchange Client again and reaches
  a second send.
\<close>

theorem second_valid_callback_exchanges_and_sends_again:
  "fst (snd (serve exchange_ok None config0 ''A'' [request_valid, request_valid] ())) =
     [Exchange_call None config0 ''c0'', Chan_send \<lparr>token = Some token0, err = None\<rparr>,
      Exchange_call None config0 ''c0'', Chan_send \<lparr>token = Some token0, err = None\<rparr>]
   \<and> length (sent (fst (snd (serve exchange_ok None config0 ''A''
                                 [request_valid, request_valid] ())))) = 2
   \<and> exchanged (fst (snd (serve exchange_ok None config0 ''A''
                             [request_valid, request_valid] ()))) = [''c0'', ''c0'']"
  by (simp add: callbackHandler_def parseCallbackRequest_def Get_def request_valid_def
        exchange_ok_def mergeContexts_def stateParam_def errParam_def codeParam_def Let_def)

text \<open>
  Claim C2, as the code has it. For a callback request whose parameters include a
  non-empty \<^verbatim>\<open>error\<close> parameter, the Token Exchange Client is never called and the one
  outcome sent is an error. When the form parses and \<^verbatim>\<open>state\<close> is non-empty that error
  is the provider's, and its message contains the values of \<^verbatim>\<open>error\<close> and
  \<^verbatim>\<open>error_description\<close>; when \<^verbatim>\<open>state\<close> is missing or empty it is the session error,
  since the state is looked at first.
\<close>

theorem provider_error_passthrough:
  assumes "Get (Form r) errParam \<noteq> []"
  shows "exchanged (fst (snd (callbackHandler X octx ocfg expectedState w r c))) = []
       \<and> fst (snd (callbackHandler X octx ocfg expectedState w r c)) =
           [Chan_send
              \<lparr>token = None,
               err = Some (case ParseForm r of
                             Some (Error m) \<Rightarrow>
                               Error (''Failed to parse request form. Err: '' @ m)
                           | None \<Rightarrow>
                               Error (if Get (Form r) stateParam = []
                                      then ''User session error. No state parameter.''
                                      else ''Got error from provider: '' @ Get (Form r) errParam
                                           @ '' Desc: '' @ Get (Form r) errDescParam))\<rparr>]
       \<and> sublist (Get (Form r) errParam)
            (''Got error from provider: '' @ Get (Form r) errParam
               @ '' Desc: '' @ Get (Form r) errDescParam)
       \<and> sublist (Get (Form r) errDescParam)
            (''Got error from provider: '' @ Get (Form r) errParam
               @ '' Desc: '' @ Get (Form r) errDescParam)"
proof -
  let ?msg = "''Got error from provider: '' @ Get (Form r) errParam
                @ '' Desc: '' @ Get (Form r) errDescParam"
  let ?e = "Error (if Get (Form r) stateParam = []
                   then ''User session error. No state parameter.'' else ?msg)"
  let ?sent = "\<lambda>e. [Chan_send \<lparr>token = None, err = Some e\<rparr>]"
  have eff: "fst (snd (callbackHandler X octx ocfg expectedState w r c)) =
               ?sent (case ParseForm r of
                        Some (Error m) \<Rightarrow> Error (''Failed to parse request form. Err: '' @ m)
                      | None \<Rightarrow> ?e)"
  proof (cases "ParseForm r")
    case None
    have "parseCallbackRequest (Form r) = Inl ?e"
      using assms by (simp add: parseCallbackRequest_def Let_def)
    from callbackHandler_parse_error [OF None this, of X octx ocfg expectedState w c]
    show ?thesis using None by simp
  next
    case (Some e)
    then obtain m where m: "ParseForm r = Some (Error m)" by (cases e) simp
    from callbackHandler_form_error [OF m, of X octx ocfg expectedState w c]
    show ?thesis using m by simp
  qed
  have s1: "sublist (Get (Form r) errParam) ?msg"
    unfolding sublist_def by blast
  have s2: "sublist (Get (Form r) errDescParam) ?msg"
    unfolding sublist_def by (metis append.assoc append_Nil2)
  show ?thesis using eff s1 s2 by simp
qed

theorem provider_error_passthrough_witness:
  "Get (Form request_denied) errParam \<noteq> []
   \<and> exchanged (fst (snd (callbackHandler exchange_ok None config0 ''A'' newResponseWriter
                             request_denied ()))) = []
   \<and> fst (snd (callbackHandler exchange_ok None config0 ''A'' newResponseWriter
                  request_denied ())) =
       [Chan_send
          \<lparr>token = None,
           err = Some (Error ''Got error from provider: access_denied Desc: user cancelled'')\<rparr>]"
proof -
  have p: "ParseForm request_denied = None" by (simp add: request_denied_def)
  have g1: "Get (Form request_denied) errParam = ''access_denied''"
    by (simp add: request_denied_def Get_def errParam_def)
  have g2: "Get (Form request_denied) stateParam = ''A''"
    by (simp add: request_denied_def Get_def stateParam_def)
  have g3: "Get (Form request_denied) errDescParam = ''user cancelled''"
    by (simp add: request_denied_def Get_def errDescParam_def)
  have h: "Get (Form request_denied) errParam \<noteq> []" by (simp add: g1)
  show ?thesis
    using h
      provider_error_passthrough [OF h, of exchange_ok None config0 "''A''" newResponseWriter "()"]
    by (simp add: p g1 g2 g3)
qed

text \<open>
  Claim C2 as stated fails on the other parameters: with \<^verbatim>\<open>error=access_denied\<close> and
  \<^verbatim>\<open>error_description=user cancelled\<close> but no \<^verbatim>\<open>state\<close>, the outcome sent is the session
  error, whose message contains neither value.
\<close>

theorem provider_error_without_state_is_session_error:
  "ParseForm request_denied_nostate = None
   \<and> Get (Form request_denied_nostate) errParam = ''access_denied''
   \<and> Get (Form request_denied_nostate) errDescParam = ''user cancelled''
   \<and> fst (snd (callbackHandler exchange_ok None config0 ''A'' newResponseWriter
                  request_denied_nostate ()))
       = [Chan_send \<lparr>token = None,
                     err = Some (Error ''User session error. No state parameter.'')\<rparr>]
   \<and> \<not> sublist ''access_denied'' ''User session error. No state parameter.''
   \<and> \<not> sublist ''user cancelled'' ''User session error. No state parameter.''"
proof -
  have a: "\<not> sublist ''access_denied'' ''User session error. No state parameter.''"
    by code_simp
  have b: "\<not> sublist ''user cancelled'' ''User session error. No state parameter.''"
    by code_simp
  have c: "ParseForm request_denied_nostate = None
   \<and> Get (Form request_denied_nostate) errParam = ''access_denied''
   \<and> Get (Form request_denied_nostate) errDescParam = ''user cancelled''
   \<and> fst (snd (callbackHandler exchange_ok None config0 ''A'' newResponseWriter
                  request_denied_nostate ()))
       = [Chan_send \<lparr>token = None,
                     err = Some (Error ''User session error. No state parameter.'')\<rparr>]"
    by (simp add: callbackHandler_def parseCallbackRequest_def Get_def request_denied_nostate_def
        errRespond_def stateParam_def errParam_def errDescParam_def Let_def)
  show ?thesis using a b c by blast
qed

text \<open>
  Claim C3. For a callback request with a non-empty \<^verbatim>\<open>state\<close> that differs from the
  expected state, a non-empty \<^verbatim>\<open>code\<close> and no \<^verbatim>\<open>error\<close> parameter, the handler sends one
  outcome, an error (the invalid-state error when the form parses), and does not call the
  Token Exchange Client, whose state is as before.
\<close>

theorem state_mismatch_rejected:
  assumes "Get (Form r) stateParam \<noteq> []"
      and "Get (Form r) stateParam \<noteq> expectedState"
      and "Get (Form r) codeParam \<noteq> []"
      and "Get (Form r) errParam = []"
  shows "fst (snd (callbackHandler X octx ocfg expectedState w r c)) =
           [Chan_send
              \<lparr>token = None,
               err = Some (case ParseForm r of
                             Some (Error m) \<Rightarrow>
                               Error (''Failed to parse request form. Err: '' @ m)
                           | None \<Rightarrow>
                               Error (''Invalid state parameter. Got '' @ Get (Form r) stateParam
                                      @ '', expected: '' @ expectedState))\<rparr>]
       \<and> exchanged (fst (snd (callbackHandler X octx ocfg expectedState w r c))) = []
       \<and> snd (snd (callbackHandler X octx ocfg expectedState w r c)) = c"
proof (cases "ParseForm r")
  case None
  have "parseCallbackRequest (Form r) = Inr (Get (Form r) codeParam, Get (Form r) stateParam)"
    using assms(1,3,4) by (simp add: parseCallbackRequest_def Let_def)
  from callbackHandler_mismatch [OF None this assms(2), of X octx ocfg w c]
  show ?thesis using None by simp
next
  case (Some e)
  then obtain m where m: "ParseForm r = Some (Error m)" by (cases e) simp
  from callbackHandler_form_error [OF m, of X octx ocfg expectedState w c]
  show ?thesis using m by simp
qed

theorem state_mismatch_rejected_witness:
  "Get (Form request_mismatch) stateParam \<noteq> []
   \<and> Get (Form request_mismatch) stateParam \<noteq> ''A''
   \<and> Get (Form request_mismatch) codeParam \<noteq> []
   \<and> Get (Form request_mismatch) errParam = []
   \<and> fst (snd (callbackHandler exchange_ok None config0 ''A'' newResponseWriter
                  request_mismatch ())) =
       [Chan_send \<lparr>token = None,
                   err = Some (Error ''Invalid state parameter. Got B, expected: A'')\<rparr>]
   \<and> exchanged (fst (snd (callbackHandler exchange_ok None config0 ''A'' newResponseWriter
                             request_mismatch ()))) = []"
proof -
  have p: "ParseForm request_mismatch = None" by (simp add: request_mismatch_def)
  have g: "Get (Form request_mismatch) stateParam = ''B''"
    by (simp add: request_mismatch_def Get_def stateParam_def)
  have h1: "Get (Form request_mismatch) stateParam \<noteq> []" by (simp add: g)
  have h2: "Get (Form request_mismatch) stateParam \<noteq> ''A''" by (simp add: g)
  have h3: "Get (Form request_mismatch) codeParam \<noteq> []"
    by (simp add: request_mismatch_def Get_def codeParam_def)
  have h4: "Get (Form request_mismatch) errParam = []"
    by (simp add: request_mismatch_def Get_def errParam_def)
  show ?thesis
    using h1 h2 h3 h4
      state_mismatch_rejected [OF h1 h2 h3 h4, of exchange_ok None config0 newResponseWriter "()"]
    by (simp add: p g)
qed

text \<open>
  Claim C10. With the default response functions, whatever the request, the expected
  state, the client and so the outcome (a credential or any error), the handler leaves a
  fresh response writer with status 200 and the same body: the response of any two runs
  is the same.
\<close>

theorem browser_response_independent_of_outcome:
  "fst (callbackHandler X octx ocfg st newResponseWriter r c) =
     \<lparr>resp_status = Some 200,
      resp_body = ''OIDC authentication flow is completed. You can close browser tab.''\<rparr>
   \<and> fst (callbackHandler X octx ocfg st newResponseWriter r c) =
       fst (callbackHandler X' octx' ocfg' st' newResponseWriter r' c')"
  by (simp add: callbackHandler_writer)

section \<open>ReuseTokenSource: claims C4, C5 and C6\<close>

text \<open>
  Claim C4. When a token is cached and the validity check reports it valid at each of
  two consecutive calls of \<^verbatim>\<open>OIDCToken\<close>, both calls return that token with no error,
  neither calls \<^verbatim>\<open>OIDCToken\<close> of the wrapped source, and the cache holds the same token
  after each. This holds for the method of the later revision (on \<open>s\<close>, whatever its
  logger) and for the one of \<^verbatim>\<open>token_src.go\<close> (on \<open>s0\<close>).
\<close>

theorem reuse_cached_token:
  assumes "rts_t s = Some tok"
      and "src_IsValid I tok (rts_new s) = (None, n1)" and "src_IsValid I tok n1 = (None, n2)"
      and "rts_t s0 = Some tok0"
      and "src_Valid I0 tok0 (rts_new s0) = (True, m1)" and "src_Valid I0 tok0 m1 = (True, m2)"
  shows "(let (r1, cs1, s1) = ReuseTokenSource_OIDCToken I s;
              (r2, cs2, s2) = ReuseTokenSource_OIDCToken I s1
          in r1 = Return (Inr (Some tok)) \<and> r2 = Return (Inr (Some tok))
             \<and> New_OIDCToken \<notin> set (cs1 @ cs2)
             \<and> rts_t s1 = rts_t s \<and> rts_t s2 = rts_t s)
       \<and> (let (r1, cs1, s1) = ReuseTokenSource_OIDCToken_token_src I0 s0;
              (r2, cs2, s2) = ReuseTokenSource_OIDCToken_token_src I0 s1
          in r1 = Inr (Some tok0) \<and> r2 = Inr (Some tok0) \<and> New_OIDCToken \<notin> set (cs1 @ cs2)
             \<and> rts_t s1 = rts_t s0 \<and> rts_t s2 = rts_t s0)"
proof -
  have a1: "ReuseTokenSource_OIDCToken I s =
              (Return (Inr (Some tok)), [New_Verifier, Token_IsValid tok], s\<lparr>rts_new := n1\<rparr>)"
    using assms(1,2) by (rule ReuseTokenSource_OIDCToken_hit)
  have a2: "ReuseTokenSource_OIDCToken I (s\<lparr>rts_new := n1\<rparr>) =
              (Return (Inr (Some tok)), [New_Verifier, Token_IsValid tok], s\<lparr>rts_new := n2\<rparr>)"
    using ReuseTokenSource_OIDCToken_hit [of "s\<lparr>rts_new := n1\<rparr>" tok I n2] assms(1,3) by simp
  have b1: "ReuseTokenSource_OIDCToken_token_src I0 s0 =
              (Inr (Some tok0), [New_Verifier, Token_Valid tok0], s0\<lparr>rts_new := m1\<rparr>)"
    using assms(4,5) by (rule ReuseTokenSource_OIDCToken_token_src_hit)
  have b2: "ReuseTokenSource_OIDCToken_token_src I0 (s0\<lparr>rts_new := m1\<rparr>) =
              (Inr (Some tok0), [New_Verifier, Token_Valid tok0], s0\<lparr>rts_new := m2\<rparr>)"
    using ReuseTokenSource_OIDCToken_token_src_hit [of "s0\<lparr>rts_new := m1\<rparr>" tok0 I0 m2]
      assms(4,6)
    by simp
  show ?thesis by (simp add: a1 a2 b1 b2)
qed

theorem reuse_cached_token_witness:
  "rts_t (NewReuseTokenSource (Some token0) ()) = Some token0
   \<and> src_IsValid source_valid token0 (rts_new (NewReuseTokenSource (Some token0) ())) = (None, ())
   \<and> src_IsValid source_valid token0 () = (None, ())
   \<and> rts_t (NewReuseTokenSource_token_src (Some token0) ()) = Some token0
   \<and> src_Valid source_valid token0 (rts_new (NewReuseTokenSource_token_src (Some token0) ()))
       = (True, ())
   \<and> src_Valid source_valid token0 () = (True, ())
   \<and> (let (r1, cs1, s1) = ReuseTokenSource_OIDCToken source_valid
                             (NewReuseTokenSource (Some token0) ());
          (r2, cs2, s2) = ReuseTokenSource_OIDCToken source_valid s1
      in r1 = Return (Inr (Some token0)) \<and> r2 = Return (Inr (Some token0))
         \<and> New_OIDCToken \<notin> set (cs1 @ cs2)
         \<and> rts_t s1 = Some token0 \<and> rts_t s2 = Some token0)
   \<and> (let (r1, cs1, s1) = ReuseTokenSource_OIDCToken_token_src source_valid
                             (NewReuseTokenSource_token_src (Some token0) ());
          (r2, cs2, s2) = ReuseTokenSource_OIDCToken_token_src source_valid s1
      in r1 = Inr (Some token0) \<and> r2 = Inr (Some token0) \<and> New_OIDCToken \<notin> set (cs1 @ cs2)
         \<and> rts_t s1 = Some token0 \<and> rts_t s2 = Some token0)"
proof -
  have h1: "rts_t (NewReuseTokenSource (Some token0) ()) = Some token0"
    by (simp add: NewReuseTokenSource_def)
  have h2: "src_IsValid source_valid token0 (rts_new (NewReuseTokenSource (Some token0) ()))
              = (None, ())"
    by (simp add: source_valid_def)
  have h3: "src_IsValid source_valid token0 () = (None, ())"
    by (simp add: source_valid_def)
  have h4: "rts_t (NewReuseTokenSource_token_src (Some token0) ()) = Some token0"
    by (simp add: NewReuseTokenSource_token_src_def)
  have h5: "src_Valid source_valid token0
              (rts_new (NewReuseTokenSource_token_src (Some token0) ())) = (True, ())"
    by (simp add: source_valid_def)
  have h6: "src_Valid source_valid token0 () = (True, ())"
    by (simp add: source_valid_def)
  show ?thesis
    using h1 h2 h3 h4 h5 h6
      reuse_cached_token [of "NewReuseTokenSource (Some token0) ()" token0 source_valid "()" "()"
        "NewReuseTokenSource_token_src (Some token0) ()" token0 source_valid "()" "()",
        OF h1 h2 h3 h4 h5 h6]
    by simp
qed

text \<open>
  Claim C5. When no token is cached, or the validity check reports the cached token
  invalid, and \<^verbatim>\<open>OIDCToken\<close> of the wrapped source is reached (the source has a debug
  logger, so that the log statement before it returns) and returns an error,
  \<^verbatim>\<open>ReuseTokenSource.OIDCToken\<close> returns that error and the cached token is what it was
  before the call (\<open>n1\<close> is the wrapped source as the validity check, if any, leaves it).
\<close>

theorem refresh_failure_keeps_cache:
  assumes "rts_t s = None \<and> n1 = rts_new s
           \<or> (\<exists>tok e'. rts_t s = Some tok \<and> src_IsValid I tok (rts_new s) = (Some e', n1))"
      and "debugLogger s = Some lg"
      and "src_OIDCToken I n1 = (Inl e, n2)"
  shows "fst (ReuseTokenSource_OIDCToken I s) = Return (Inl e)
       \<and> New_OIDCToken \<in> set (fst (snd (ReuseTokenSource_OIDCToken I s)))
       \<and> snd (snd (ReuseTokenSource_OIDCToken I s)) = s\<lparr>rts_new := n2\<rparr>
       \<and> rts_t (snd (snd (ReuseTokenSource_OIDCToken I s))) = rts_t s"
  using assms(1)
proof (elim disjE conjE exE)
  assume a: "rts_t s = None" "n1 = rts_new s"
  have "src_OIDCToken I (rts_new s) = (Inl e, n2)"
    using a(2) assms(3) by simp
  then show ?thesis
    using ReuseTokenSource_OIDCToken_absent [OF a(1) assms(2), of I]
    by (simp add: returned_obtain_from_new_error)
next
  fix tok e'
  assume a: "rts_t s = Some tok" "src_IsValid I tok (rts_new s) = (Some e', n1)"
  obtain m where m: "e' = Error m" by (cases e') simp
  have "src_OIDCToken I (rts_new (s\<lparr>rts_new := n1\<rparr>)) = (Inl e, n2)"
    using assms(3) by simp
  then show ?thesis
    using ReuseTokenSource_OIDCToken_invalid [OF a(1) a(2) [unfolded m] assms(2)]
    by (simp add: returned_obtain_from_new_error)
qed

theorem refresh_failure_keeps_cache_witness:
  "(rts_t (NewReuseTokenSource (Some token0) ()) = None
      \<and> () = rts_new (NewReuseTokenSource (Some token0) ())
    \<or> (\<exists>tok e'. rts_t (NewReuseTokenSource (Some token0) ()) = Some tok
         \<and> src_IsValid source_fails tok (rts_new (NewReuseTokenSource (Some token0) ()))
             = (Some e', ())))
   \<and> debugLogger (NewReuseTokenSource (Some token0) ()) = Some (Logger Discard [] 0)
   \<and> src_OIDCToken source_fails () = (Inl (Error ''refresh rejected''), ())
   \<and> fst (ReuseTokenSource_OIDCToken source_fails (NewReuseTokenSource (Some token0) ()))
       = Return (Inl (Error ''refresh rejected''))
   \<and> rts_t (snd (snd (ReuseTokenSource_OIDCToken source_fails
                         (NewReuseTokenSource (Some token0) ()))))
       = Some token0"
proof -
  have h1: "rts_t (NewReuseTokenSource (Some token0) ()) = None
      \<and> () = rts_new (NewReuseTokenSource (Some token0) ())
    \<or> (\<exists>tok e'. rts_t (NewReuseTokenSource (Some token0) ()) = Some tok
         \<and> src_IsValid source_fails tok (rts_new (NewReuseTokenSource (Some token0) ()))
             = (Some e', ()))"
    by (simp add: NewReuseTokenSource_def source_fails_def)
  have h2: "debugLogger (NewReuseTokenSource (Some token0) ()) = Some (Logger Discard [] 0)"
    by (simp add: NewReuseTokenSource_def)
  have h3: "src_OIDCToken source_fails () = (Inl (Error ''refresh rejected''), ())"
    by (simp add: source_fails_def)
  show ?thesis
    using h1 h2 h3 refresh_failure_keeps_cache [OF h1 h2 h3]
    by (simp add: NewReuseTokenSource_def)
qed

text \<open>
  Claim C6, at a source whose debug logger is nil. The logger field is documented as
  optional and \<^verbatim>\<open>NewReuseTokenSourceWithDebugLogger\<close> stores it unchecked, while
  \<^verbatim>\<open>NewReuseTokenSource\<close> puts a discarding logger in its place. After \<^verbatim>\<open>reset\<close> on such a
  source the next \<^verbatim>\<open>OIDCToken\<close> makes no validity check, as the claim says, but panics at
  the log statement of line 76 and never calls \<^verbatim>\<open>OIDCToken\<close> of the wrapped source,
  which here would have returned a token. On a source that has a logger the claim holds
  (\<open>reset_forces_refresh_with_logger\<close>).
\<close>

theorem reset_on_nil_logger_panics_before_refresh:
  "ReuseTokenSource_OIDCToken source_valid
       (reset (NewReuseTokenSourceWithDebugLogger None (Some token0) ()))
     = (Panic, [], \<lparr>rts_new = (), rts_t = None, debugLogger = None\<rparr>)
   \<and> New_OIDCToken \<notin> set (fst (snd (ReuseTokenSource_OIDCToken source_valid
                                        (reset (NewReuseTokenSourceWithDebugLogger None
                                                  (Some token0) ())))))
   \<and> src_OIDCToken source_valid () = (Inr (Some token1), ())"
  by (simp add: ReuseTokenSource_OIDCToken_def reset_def NewReuseTokenSourceWithDebugLogger_def
        Println_def Printf_def source_valid_def)

section \<open>TokenRefresher: claims C7, C8 and C9\<close>

text \<open>
  Claim C7, as the code has it. When a refresher holding a non-empty refresh token calls
  the token endpoint, the call succeeds and the returned token's refresh token differs
  from the one sent, the refresher holds the returned value after the call. The next
  \<^verbatim>\<open>OIDCToken\<close> sends a form whose \<^verbatim>\<open>refresh_token\<close> is that value when the value is not
  empty, and makes no call when it is empty.
\<close>

theorem refresh_token_rotation:
  assumes "refreshToken tf \<noteq> []"
      and "endpoint (ClientID (cfg tf)) (ClientSecret (cfg tf)) (refresh_form tf) (client tf)
             = (Inr tk, c)"
      and "RefreshToken tk \<noteq> refreshToken tf"
  shows "snd (snd (TokenRefresher_OIDCToken endpoint tf))
           = tf\<lparr>client := c, refreshToken := RefreshToken tk\<rparr>
       \<and> refreshToken (snd (snd (TokenRefresher_OIDCToken endpoint tf))) = RefreshToken tk
       \<and> fst (snd (TokenRefresher_OIDCToken endpoint
                     (snd (snd (TokenRefresher_OIDCToken endpoint tf)))))
           = (if RefreshToken tk = [] then []
              else [Client_token (ClientID (cfg tf)) (ClientSecret (cfg tf))
                      (refresh_form (tf\<lparr>client := c, refreshToken := RefreshToken tk\<rparr>))])
       \<and> Get (refresh_form (tf\<lparr>client := c, refreshToken := RefreshToken tk\<rparr>)) ''refresh_token''
           = RefreshToken tk"
proof -
  let ?tf' = "tf\<lparr>client := c, refreshToken := RefreshToken tk\<rparr>"
  have st: "snd (snd (TokenRefresher_OIDCToken endpoint tf)) = ?tf'"
    using assms by (simp add: TokenRefresher_OIDCToken_success)
  have nxt: "fst (snd (TokenRefresher_OIDCToken endpoint ?tf'))
              = (if RefreshToken tk = [] then []
                 else [Client_token (ClientID (cfg tf)) (ClientSecret (cfg tf))
                         (refresh_form ?tf')])"
    by (simp add: TokenRefresher_OIDCToken_calls)
  show ?thesis using st nxt by (simp add: Get_refresh_form)
qed

theorem refresh_token_rotation_witness:
  "refreshToken (NewTokenRefresher () config0 ''old'') \<noteq> []
   \<and> endpoint_rotates ''cli'' ''secret'' (refresh_form (NewTokenRefresher () config0 ''old'')) ()
       = (Inr token1, ())
   \<and> RefreshToken token1 \<noteq> refreshToken (NewTokenRefresher () config0 ''old'')
   \<and> refreshToken (snd (snd (TokenRefresher_OIDCToken endpoint_rotates
                               (NewTokenRefresher () config0 ''old'')))) = ''rt1''
   \<and> fst (snd (TokenRefresher_OIDCToken endpoint_rotates
                  (snd (snd (TokenRefresher_OIDCToken endpoint_rotates
                               (NewTokenRefresher () config0 ''old''))))))
       = [Client_token ''cli'' ''secret''
            [(''grant_type'', [''refresh_token'']), (''refresh_token'', [''rt1'']),
             (''scope'', [''openid email''])]]"
proof -
  have h1: "refreshToken (NewTokenRefresher () config0 ''old'') \<noteq> []"
    by (simp add: NewTokenRefresher_def)
  have h2: "endpoint_rotates (ClientID (cfg (NewTokenRefresher () config0 ''old'')))
              (ClientSecret (cfg (NewTokenRefresher () config0 ''old'')))
              (refresh_form (NewTokenRefresher () config0 ''old''))
              (client (NewTokenRefresher () config0 ''old'')) = (Inr token1, ())"
    by (simp add: endpoint_rotates_def)
  have h3: "RefreshToken token1 \<noteq> refreshToken (NewTokenRefresher () config0 ''old'')"
    by (simp add: NewTokenRefresher_def token1_def)
  show ?thesis
    using h1 h2 h3
      refresh_token_rotation [of "NewTokenRefresher () config0 ''old''" endpoint_rotates token1 "()",
        OF h1 h2 h3]
    by (simp add: NewTokenRefresher_def token1_def config0_def endpoint_rotates_def
          refresh_form_def Set_def GrantTypeRefreshToken_def TokenRefresher_OIDCToken_def)
qed

text \<open>
  Claim C7 as stated fails when the returned refresh token is empty: it differs from the
  one sent and becomes the held value, and the next \<^verbatim>\<open>OIDCToken\<close> sends nothing.
\<close>

theorem rotation_to_empty_sends_nothing:
  "refreshToken (NewTokenRefresher () config0 ''old'') \<noteq> []
   \<and> endpoint_norefresh (ClientID (cfg (NewTokenRefresher () config0 ''old'')))
        (ClientSecret (cfg (NewTokenRefresher () config0 ''old'')))
        (refresh_form (NewTokenRefresher () config0 ''old''))
        (client (NewTokenRefresher () config0 ''old'')) = (Inr token_norefresh, ())
   \<and> RefreshToken token_norefresh \<noteq> refreshToken (NewTokenRefresher () config0 ''old'')
   \<and> fst (snd (TokenRefresher_OIDCToken endpoint_norefresh
                  (snd (snd (TokenRefresher_OIDCToken endpoint_norefresh
                               (NewTokenRefresher () config0 ''old'')))))) = []"
  by (simp add: NewTokenRefresher_def endpoint_norefresh_def token_norefresh_def
        TokenRefresher_OIDCToken_def Let_def)

text \<open>
  Claim C8. A refresher whose held refresh token is the empty string returns an error
  from \<^verbatim>\<open>OIDCToken\<close> at once: no call is made on the token endpoint and the refresher is
  as before. The refresher is either struct, that of the later revision or that of
  \<^verbatim>\<open>token_src.go\<close>.
\<close>

theorem no_refresh_token_fails:
  assumes "refreshToken tf = []"
  shows "TokenRefresher_OIDCToken endpoint tf =
           (Inl (Error ''oauth2: token expired and refresh token is not set''), [], tf)"
  using assms by (rule TokenRefresher_OIDCToken_empty)

theorem no_refresh_token_fails_witness:
  "refreshToken (NewTokenRefresher () config0 []) = []
   \<and> TokenRefresher_OIDCToken endpoint_rotates (NewTokenRefresher () config0 []) =
       (Inl (Error ''oauth2: token expired and refresh token is not set''), [],
        NewTokenRefresher () config0 [])
   \<and> refreshToken \<lparr>refreshToken = [], client = (), cfg = config0, vCfg = ''cli''\<rparr> = []
   \<and> TokenRefresher_OIDCToken endpoint_rotates
         \<lparr>refreshToken = [], client = (), cfg = config0, vCfg = ''cli''\<rparr> =
       (Inl (Error ''oauth2: token expired and refresh token is not set''), [],
        \<lparr>refreshToken = [], client = (), cfg = config0, vCfg = ''cli''\<rparr>)"
proof -
  have h: "refreshToken (NewTokenRefresher () config0 []) = []"
    by (simp add: NewTokenRefresher_def)
  have h': "refreshToken \<lparr>refreshToken = [], client = (), cfg = config0, vCfg = ''cli''\<rparr> = []"
    by simp
  show ?thesis
    using h h' no_refresh_token_fails [OF h, of endpoint_rotates]
      no_refresh_token_fails [OF h', of endpoint_rotates]
    by simp
qed

text \<open>
  Claim C9. When a refresher holding a non-empty refresh token calls the token endpoint,
  the call succeeds and the returned token's refresh token is the empty string, the held
  refresh token becomes the empty string, and each of any number \<open>n\<close> of later calls of
  \<^verbatim>\<open>OIDCToken\<close> returns the error with no call on the token endpoint.
\<close>

theorem empty_rotation_disables_refresher:
  assumes "refreshToken tf \<noteq> []"
      and "endpoint (ClientID (cfg tf)) (ClientSecret (cfg tf)) (refresh_form tf) (client tf)
             = (Inr tk, c)"
      and "RefreshToken tk = []"
  shows "snd (snd (TokenRefresher_OIDCToken endpoint tf)) = tf\<lparr>client := c, refreshToken := []\<rparr>
       \<and> TokenRefresher_OIDCToken_times endpoint n (tf\<lparr>client := c, refreshToken := []\<rparr>) =
           (replicate n (Inl (Error ''oauth2: token expired and refresh token is not set'')),
            [], tf\<lparr>client := c, refreshToken := []\<rparr>)"
proof
  show "snd (snd (TokenRefresher_OIDCToken endpoint tf)) = tf\<lparr>client := c, refreshToken := []\<rparr>"
    using assms by (simp add: TokenRefresher_OIDCToken_success)
next
  have "refreshToken (tf\<lparr>client := c, refreshToken := []\<rparr>) = []" by simp
  then show "TokenRefresher_OIDCToken_times endpoint n (tf\<lparr>client := c, refreshToken := []\<rparr>) =
           (replicate n (Inl (Error ''oauth2: token expired and refresh token is not set'')),
            [], tf\<lparr>client := c, refreshToken := []\<rparr>)"
    by (rule TokenRefresher_OIDCToken_times_empty)
qed

theorem empty_rotation_disables_refresher_witness:
  "refreshToken (NewTokenRefresher () config0 ''rt0'') \<noteq> []
   \<and> endpoint_norefresh ''cli'' ''secret'' (refresh_form (NewTokenRefresher () config0 ''rt0'')) ()
       = (Inr token_norefresh, ())
   \<and> RefreshToken token_norefresh = []
   \<and> refreshToken (snd (snd (TokenRefresher_OIDCToken endpoint_norefresh
                               (NewTokenRefresher () config0 ''rt0'')))) = []
   \<and> TokenRefresher_OIDCToken_times endpoint_norefresh 3
         (snd (snd (TokenRefresher_OIDCToken endpoint_norefresh
                      (NewTokenRefresher () config0 ''rt0'')))) =
       ([Inl (Error ''oauth2: token expired and refresh token is not set''),
         Inl (Error ''oauth2: token expired and refresh token is not set''),
         Inl (Error ''oauth2: token expired and refresh token is not set'')],
        [], \<lparr>refreshToken = [], client = (), cfg = config0\<rparr>)"
proof -
  have h1: "refreshToken (NewTokenRefresher () config0 ''rt0'') \<noteq> []"
    by (simp add: NewTokenRefresher_def)
  have h2: "endpoint_norefresh (ClientID (cfg (NewTokenRefresher () config0 ''rt0'')))
              (ClientSecret (cfg (NewTokenRefresher () config0 ''rt0'')))
              (refresh_form (NewTokenRefresher () config0 ''rt0''))
              (client (NewTokenRefresher () config0 ''rt0'')) = (Inr token_norefresh, ())"
    by (simp add: endpoint_norefresh_def)
  have h3: "RefreshToken token_norefresh = []"
    by (simp add: token_norefresh_def)
  have r: "replicate 3 x = [x, x, x]" for x :: "error + Token option"
    by (simp add: numeral_3_eq_3)
  show ?thesis
    using h1 h2 h3
      empty_rotation_disables_refresher [of "NewTokenRefresher () config0 ''rt0''"
        endpoint_norefresh token_norefresh "()" 3, OF h1 h2 h3]
    by (simp add: NewTokenRefresher_def endpoint_norefresh_def token_norefresh_def r
          TokenRefresher_OIDCToken_def Let_def)
qed

end
